theory Spec2Isabelle
  imports Complex_Main
begin

section \<open>Content tree and frames (AdminCaseStudy.jsx, lines 23-54)\<close>

text \<open>
  The case study handed to both modals is a plain object
  \<^verbatim>\<open>{ title, description, panels: [{ label, title, description, mockups: [{ src, alt }] }] }\<close>
  (the literals are in the Projects section). The prop may be absent, so the functions
  below take a \<open>caseStudy option\<close>, \<open>None\<close> standing for a falsy prop.
\<close>

record mockup =
  src :: string
  alt :: string

record panel =
  label :: string
  title :: string
  description :: string
  mockups :: "mockup list"

record caseStudy =
  title :: string
  description :: string
  panels :: "panel list"

text \<open>
  A frame object carries a \<^verbatim>\<open>type\<close> tag, \<^verbatim>\<open>'intro'\<close> or \<^verbatim>\<open>'content'\<close>; the tag is the
  constructor here. The fields of a content frame keep the names the code gives them
  (\<^verbatim>\<open>description\<close> holds the panel's description, \<^verbatim>\<open>totalImages\<close> the panel's number
  of mockups).
\<close>

record content_frame =
  panelLabel :: string
  panelTitle :: string
  description :: string
  mockup :: mockup
  imageNumber :: nat
  totalImages :: nat
  panelIndex :: nat
  isFirstInPanel :: bool
  isLastInPanel :: bool

datatype frame = Intro string string | Content content_frame

text \<open>
  \<^verbatim>\<open>Array.prototype.forEach((element, index) => ...)\<close> with the array being built threaded
  through as the accumulator: the callback sees each element with its 0-based index, in
  order.
\<close>

fun forEach :: "('a \<Rightarrow> nat \<Rightarrow> 's \<Rightarrow> 's) \<Rightarrow> 'a list \<Rightarrow> nat \<Rightarrow> 's \<Rightarrow> 's" where
  "forEach f [] i acc = acc"
| "forEach f (x # xs) i acc = forEach f xs (Suc i) (f x i acc)"

definition push :: "'a \<Rightarrow> 'a list \<Rightarrow> 'a list" where
  "push x acc = acc @ [x]"

text \<open>The object literal pushed for one mockup (lines 38-49).\<close>

definition contentFrame :: "panel \<Rightarrow> nat \<Rightarrow> mockup \<Rightarrow> nat \<Rightarrow> frame" where
  "contentFrame panel pIndex mockupObj mockupIndex = Content
     \<lparr> panelLabel = label panel,
       panelTitle = panel.title panel,
       description = panel.description panel,
       mockup = mockupObj,
       imageNumber = mockupIndex + 1,
       totalImages = length (mockups panel),
       panelIndex = pIndex,
       isFirstInPanel = (mockupIndex = 0),
       isLastInPanel = (int mockupIndex = int (length (mockups panel)) - 1) \<rparr>"

definition frames :: "caseStudy option \<Rightarrow> frame list" where
  "frames cs =
     (case cs of
        None \<Rightarrow> []
      | Some c \<Rightarrow>
          forEach
            (\<lambda>panel pIndex.
               forEach (\<lambda>mockupObj mockupIndex.
                          push (contentFrame panel pIndex mockupObj mockupIndex))
                 (mockups panel) 0)
            (panels c) 0
            (push (Intro (caseStudy.title c) (caseStudy.description c)) []))"

section \<open>JavaScript numbers\<close>

text \<open>
  Indices and scroll offsets are JavaScript numbers. A finite number is modelled by the
  rational it denotes (so the rounding error of a double is not modelled, and \<open>-0\<close> is
  identified with \<open>0\<close>: none of \<^verbatim>\<open><\<close>, \<^verbatim>\<open>>=\<close>, \<^verbatim>\<open>===\<close> tells them apart); the three
  non-finite values are kept, since a division by a zero extent produces them.
\<close>

datatype jsnum = Num rat | NaN | PosInfinity | NegInfinity

fun js_neg :: "jsnum \<Rightarrow> jsnum" where
  "js_neg (Num a) = Num (- a)"
| "js_neg NaN = NaN"
| "js_neg PosInfinity = NegInfinity"
| "js_neg NegInfinity = PosInfinity"

text \<open>\<^verbatim>\<open>a < b\<close>: false as soon as one side is \<^verbatim>\<open>NaN\<close>.\<close>

fun js_lt :: "jsnum \<Rightarrow> jsnum \<Rightarrow> bool" where
  "js_lt NaN b = False"
| "js_lt a NaN = False"
| "js_lt (Num a) (Num b) = (a < b)"
| "js_lt NegInfinity NegInfinity = False"
| "js_lt NegInfinity b = True"
| "js_lt a NegInfinity = False"
| "js_lt PosInfinity b = False"
| "js_lt a PosInfinity = True"

text \<open>\<^verbatim>\<open>a >= b\<close>: false as soon as one side is \<^verbatim>\<open>NaN\<close>, otherwise the negation of \<^verbatim>\<open>a < b\<close>.\<close>

fun js_ge :: "jsnum \<Rightarrow> jsnum \<Rightarrow> bool" where
  "js_ge NaN b = False"
| "js_ge a NaN = False"
| "js_ge a b = (if js_lt a b then False else True)"

fun js_add :: "jsnum \<Rightarrow> jsnum \<Rightarrow> jsnum" where
  "js_add (Num a) (Num b) = Num (a + b)"
| "js_add NaN b = NaN"
| "js_add a NaN = NaN"
| "js_add PosInfinity NegInfinity = NaN"
| "js_add NegInfinity PosInfinity = NaN"
| "js_add PosInfinity b = PosInfinity"
| "js_add NegInfinity b = NegInfinity"
| "js_add (Num a) b = b"

definition js_sub :: "jsnum \<Rightarrow> jsnum \<Rightarrow> jsnum" where
  "js_sub a b = js_add a (js_neg b)"

fun js_mul :: "jsnum \<Rightarrow> jsnum \<Rightarrow> jsnum" where
  "js_mul (Num a) (Num b) = Num (a * b)"
| "js_mul NaN b = NaN"
| "js_mul a NaN = NaN"
| "js_mul (Num a) b = (if a = 0 then NaN else if 0 < a then b else js_neg b)"
| "js_mul a (Num b) = (if b = 0 then NaN else if 0 < b then a else js_neg a)"
| "js_mul a b = (if a = b then PosInfinity else NegInfinity)"

text \<open>
  \<^verbatim>\<open>a / b\<close> for two finite operands, the only division in the code (a scroll offset by an
  element extent, both read from the DOM): a zero divisor gives \<^verbatim>\<open>NaN\<close> or an infinity.
\<close>

definition js_div :: "rat \<Rightarrow> rat \<Rightarrow> jsnum" where
  "js_div a b =
     (if b = 0 then (if a = 0 then NaN else if 0 < a then PosInfinity else NegInfinity)
      else Num (a / b))"

text \<open>\<^verbatim>\<open>Math.round\<close>: the nearest integer, a tie going up; non-finite values pass through.\<close>

fun Math_round :: "jsnum \<Rightarrow> jsnum" where
  "Math_round (Num a) = Num (of_int \<lfloor>a + 1 / 2\<rfloor>)"
| "Math_round a = a"

section \<open>Component state\<close>

text \<open>
  The scroll container behind \<^verbatim>\<open>scrollContainerRef\<close>: the four properties the code reads
  or writes. \<^verbatim>\<open>offsetWidth\<close> and \<^verbatim>\<open>offsetHeight\<close> are integers in the DOM; scroll offsets
  may be fractional.
\<close>

record container =
  scrollTop :: rat
  scrollLeft :: rat
  offsetHeight :: int
  offsetWidth :: int

text \<open>
  A call \<^verbatim>\<open>container.scrollTo({ top | left: v, behavior: 'smooth' })\<close>. The smooth scroll
  itself runs in the browser afterwards; the model records the request.
\<close>

datatype scrollToOptions = Top jsnum | Left jsnum

text \<open>
  What both components hold: the \<^verbatim>\<open>isOpen\<close> prop (owned by the Projects section, which
  sets it through \<^verbatim>\<open>openAdminCaseStudy\<close>, \<^verbatim>\<open>closeAdminCaseStudy\<close> and their User
  counterparts and passes the closing function as \<^verbatim>\<open>onClose\<close>), the two layout flags,
  the ref (\<open>None\<close> for \<^verbatim>\<open>null\<close>, the container not mounted) and the \<^verbatim>\<open>scrollTo\<close> calls
  issued so far, oldest first.
\<close>

record modal_state =
  isOpen :: bool
  isVerticalLayout :: bool
  showKeyboardHints :: bool
  scrollContainerRef :: "container option"
  scrollToCalls :: "scrollToOptions list"

record admin_state = modal_state +
  currentFrame :: jsnum
  zoomedFrame :: "nat option"

record user_state = modal_state +
  currentPanel :: jsnum
  activeImageIndex :: "string option"

text \<open>\<^verbatim>\<open>closeAdminCaseStudy\<close> and \<^verbatim>\<open>closeUserCaseStudy\<close> of the Projects section.\<close>

definition closeAdminCaseStudy :: "admin_state \<Rightarrow> admin_state" where
  "closeAdminCaseStudy s = s\<lparr>isOpen := False\<rparr>"

definition closeUserCaseStudy :: "user_state \<Rightarrow> user_state" where
  "closeUserCaseStudy s = s\<lparr>isOpen := False\<rparr>"

section \<open>AdminCaseStudy.jsx\<close>

text \<open>\<^verbatim>\<open>checkLayout\<close> (lines 58-61), given \<^verbatim>\<open>window.innerWidth\<close>.\<close>

definition Admin_checkLayout :: "int \<Rightarrow> admin_state \<Rightarrow> admin_state" where
  "Admin_checkLayout innerWidth s =
     s\<lparr>isVerticalLayout := (innerWidth < 1025), showKeyboardHints := (1024 \<le> innerWidth)\<rparr>"

text \<open>The effect of lines 81-90, which React runs after a render in which \<^verbatim>\<open>isOpen\<close> changed.\<close>

definition Admin_resetEffect :: "admin_state \<Rightarrow> admin_state" where
  "Admin_resetEffect s =
     (if isOpen s then
        s\<lparr>currentFrame := Num 0, zoomedFrame := None,
          scrollContainerRef :=
            (case scrollContainerRef s of
               None \<Rightarrow> None
             | Some c \<Rightarrow> Some (c\<lparr>scrollLeft := 0, scrollTop := 0\<rparr>))\<rparr>
      else s)"

text \<open>
  A render with the prop \<^verbatim>\<open>isOpen\<close> set to \<open>b\<close> by the parent: the effects that depend on
  \<^verbatim>\<open>[isOpen]\<close> run when the value differs from the previous render's.
\<close>

definition Admin_setIsOpen :: "bool \<Rightarrow> admin_state \<Rightarrow> admin_state" where
  "Admin_setIsOpen b s = (if isOpen s = b then s else Admin_resetEffect (s\<lparr>isOpen := b\<rparr>))"

text \<open>The throttled body of \<^verbatim>\<open>handleScroll\<close> (lines 117-123).\<close>

definition Admin_handleScroll :: "admin_state \<Rightarrow> admin_state" where
  "Admin_handleScroll s =
     (case scrollContainerRef s of
        None \<Rightarrow> s
      | Some c \<Rightarrow>
          (let scrollPosition = (if isVerticalLayout s then scrollTop c else scrollLeft c);
               containerSize = (if isVerticalLayout s then offsetHeight c else offsetWidth c);
               activeIndex = Math_round (js_div scrollPosition (of_int containerSize))
           in s\<lparr>currentFrame := activeIndex\<rparr>))"

text \<open>
  \<^verbatim>\<open>navigateToFrame\<close> (lines 138-158). The callback closes over \<^verbatim>\<open>frames.length\<close> and
  \<^verbatim>\<open>isVerticalLayout\<close>, its \<^verbatim>\<open>useCallback\<close> dependencies, which are the first two
  arguments here; the container is read from the ref when the call is made.
\<close>

definition Admin_navigateToFrame :: "nat \<Rightarrow> bool \<Rightarrow> jsnum \<Rightarrow> admin_state \<Rightarrow> admin_state" where
  "Admin_navigateToFrame framesLength vertical index s =
     (if js_lt index (Num 0) \<or> js_ge index (Num (of_nat framesLength)) then s
      else
        (case scrollContainerRef s of
           None \<Rightarrow> s
         | Some c \<Rightarrow>
             (let frameSize = Num (of_int (if vertical then offsetHeight c else offsetWidth c))
              in s\<lparr>scrollToCalls := scrollToCalls s @
                     [if vertical then Top (js_mul frameSize index)
                      else Left (js_mul frameSize index)],
                   currentFrame := index\<rparr>)))"

text \<open>
  \<^verbatim>\<open>handleKeyDown\<close> (lines 96-108). The listener is re-created when \<^verbatim>\<open>isOpen\<close>,
  \<^verbatim>\<open>currentFrame\<close>, \<^verbatim>\<open>zoomedFrame\<close>, \<^verbatim>\<open>onClose\<close> or \<^verbatim>\<open>caseStudy\<close> change, so these are
  read from the current state; the \<^verbatim>\<open>navigateToFrame\<close> it closes over is the one of
  that render, whose layout flag is the argument \<open>vertical\<close>.
\<close>

definition Admin_handleKeyDown :: "caseStudy option \<Rightarrow> bool \<Rightarrow> string \<Rightarrow> admin_state \<Rightarrow> admin_state" where
  "Admin_handleKeyDown cs vertical key s =
     (if key = ''Escape'' then
        (if zoomedFrame s \<noteq> None then s\<lparr>zoomedFrame := None\<rparr> else closeAdminCaseStudy s)
      else if key = ''ArrowRight'' \<or> key = ''ArrowDown'' then
        Admin_navigateToFrame (length (frames cs)) vertical (js_add (currentFrame s) (Num 1)) s
      else if key = ''ArrowLeft'' \<or> key = ''ArrowUp'' then
        Admin_navigateToFrame (length (frames cs)) vertical (js_sub (currentFrame s) (Num 1)) s
      else s)"

text \<open>A \<^verbatim>\<open>keydown\<close> on the window: the listener is attached only while the modal is open
  and a case study is given (line 94).\<close>

definition Admin_keydown :: "caseStudy option \<Rightarrow> bool \<Rightarrow> string \<Rightarrow> admin_state \<Rightarrow> admin_state" where
  "Admin_keydown cs vertical key s =
     (if isOpen s \<and> cs \<noteq> None then Admin_handleKeyDown cs vertical key s else s)"

text \<open>
  The keyboard effect itself (lines 93-112). Its body installs a listener only while the
  modal is open and a case study is given; the handler it installs calls the
  \<^verbatim>\<open>navigateToFrame\<close> of that render, so what the listener holds is that render's layout
  flag (\<open>None\<close>: no listener).
\<close>

definition Admin_keydownListener :: "caseStudy option \<Rightarrow> admin_state \<Rightarrow> bool option" where
  "Admin_keydownListener cs s = (if isOpen s \<and> cs \<noteq> None then Some (isVerticalLayout s) else None)"

text \<open>
  A re-render from state \<open>s\<close> to state \<open>s'\<close> under the same props. React runs the effect again
  only when one of its dependencies \<^verbatim>\<open>[isOpen, currentFrame, zoomedFrame, onClose, caseStudy]\<close>
  differs (line 112); \<^verbatim>\<open>isVerticalLayout\<close> and \<^verbatim>\<open>navigateToFrame\<close> are not among them, so
  otherwise the listener of the earlier render stays.
\<close>

definition Admin_rerender ::
  "caseStudy option \<Rightarrow> bool option \<Rightarrow> admin_state \<Rightarrow> admin_state \<Rightarrow> bool option" where
  "Admin_rerender cs listener s s' =
     (if isOpen s' = isOpen s \<and> currentFrame s' = currentFrame s \<and> zoomedFrame s' = zoomedFrame s
      then listener else Admin_keydownListener cs s')"

text \<open>A \<^verbatim>\<open>keydown\<close> on the window, delivered to the listener that is installed.\<close>

definition Admin_window_keydown ::
  "caseStudy option \<Rightarrow> bool option \<Rightarrow> string \<Rightarrow> admin_state \<Rightarrow> admin_state" where
  "Admin_window_keydown cs listener key s =
     (case listener of None \<Rightarrow> s | Some vertical \<Rightarrow> Admin_handleKeyDown cs vertical key s)"

text \<open>The \<^verbatim>\<open>onClick\<close> of the image of frame \<open>frameIndex\<close> (line 500).\<close>

definition Admin_image_onClick :: "nat \<Rightarrow> admin_state \<Rightarrow> admin_state" where
  "Admin_image_onClick frameIndex s =
     s\<lparr>zoomedFrame := (if zoomedFrame s = Some frameIndex then None else Some frameIndex)\<rparr>"

text \<open>Whether the render shows frame \<open>frameIndex\<close> zoomed: \<^verbatim>\<open>zoomedFrame === frameIndex\<close>
  (lines 488, 493).\<close>

definition Admin_isZoomed :: "admin_state \<Rightarrow> nat \<Rightarrow> bool" where
  "Admin_isZoomed s frameIndex = (zoomedFrame s = Some frameIndex)"

section \<open>UserCaseStudy.jsx\<close>

text \<open>\<^verbatim>\<open>checkLayout\<close> (lines 23-26).\<close>

definition User_checkLayout :: "int \<Rightarrow> user_state \<Rightarrow> user_state" where
  "User_checkLayout innerWidth s =
     s\<lparr>isVerticalLayout := (innerWidth < 641), showKeyboardHints := (1024 \<le> innerWidth)\<rparr>"

text \<open>The effect of lines 46-54.\<close>

definition User_resetEffect :: "user_state \<Rightarrow> user_state" where
  "User_resetEffect s =
     (if isOpen s then
        s\<lparr>currentPanel := Num 0,
          scrollContainerRef :=
            (case scrollContainerRef s of
               None \<Rightarrow> None
             | Some c \<Rightarrow> Some (c\<lparr>scrollLeft := 0, scrollTop := 0\<rparr>))\<rparr>
      else s)"

definition User_setIsOpen :: "bool \<Rightarrow> user_state \<Rightarrow> user_state" where
  "User_setIsOpen b s = (if isOpen s = b then s else User_resetEffect (s\<lparr>isOpen := b\<rparr>))"

text \<open>The throttled body of \<^verbatim>\<open>handleScroll\<close> (lines 77-83).\<close>

definition User_handleScroll :: "user_state \<Rightarrow> user_state" where
  "User_handleScroll s =
     (case scrollContainerRef s of
        None \<Rightarrow> s
      | Some c \<Rightarrow>
          (let scrollPosition = (if isVerticalLayout s then scrollTop c else scrollLeft c);
               containerSize = (if isVerticalLayout s then offsetHeight c else offsetWidth c);
               activeIndex = Math_round (js_div scrollPosition (of_int containerSize))
           in s\<lparr>currentPanel := activeIndex\<rparr>))"

text \<open>
  \<^verbatim>\<open>navigateToPanel\<close> (lines 120-140); it closes over \<^verbatim>\<open>caseStudy\<close> and
  \<^verbatim>\<open>isVerticalLayout\<close>.
\<close>

definition User_navigateToPanel :: "caseStudy option \<Rightarrow> bool \<Rightarrow> jsnum \<Rightarrow> user_state \<Rightarrow> user_state" where
  "User_navigateToPanel cs vertical index s =
     (case cs of
        None \<Rightarrow> s
      | Some c0 \<Rightarrow>
          (if js_lt index (Num 0) \<or> js_ge index (Num (of_nat (length (panels c0) + 1))) then s
           else
             (case scrollContainerRef s of
                None \<Rightarrow> s
              | Some c \<Rightarrow>
                  (let panelSize = Num (of_int (if vertical then offsetHeight c else offsetWidth c))
                   in s\<lparr>scrollToCalls := scrollToCalls s @
                          [if vertical then Top (js_mul panelSize index)
                           else Left (js_mul panelSize index)],
                        currentPanel := index\<rparr>))))"

text \<open>\<^verbatim>\<open>handleKeyDown\<close> (lines 60-68).\<close>

definition User_handleKeyDown :: "caseStudy option \<Rightarrow> bool \<Rightarrow> string \<Rightarrow> user_state \<Rightarrow> user_state" where
  "User_handleKeyDown cs vertical key s =
     (if key = ''Escape'' then closeUserCaseStudy s
      else if key = ''ArrowRight'' \<or> key = ''ArrowDown'' then
        User_navigateToPanel cs vertical (js_add (currentPanel s) (Num 1)) s
      else if key = ''ArrowLeft'' \<or> key = ''ArrowUp'' then
        User_navigateToPanel cs vertical (js_sub (currentPanel s) (Num 1)) s
      else s)"

definition User_keydown :: "caseStudy option \<Rightarrow> bool \<Rightarrow> string \<Rightarrow> user_state \<Rightarrow> user_state" where
  "User_keydown cs vertical key s =
     (if isOpen s \<and> cs \<noteq> None then User_handleKeyDown cs vertical key s else s)"

text \<open>
  The keyboard effect of lines 57-72, as for AdminCaseStudy: its dependencies are
  \<^verbatim>\<open>[isOpen, currentPanel, onClose, caseStudy]\<close>.
\<close>

definition User_keydownListener :: "caseStudy option \<Rightarrow> user_state \<Rightarrow> bool option" where
  "User_keydownListener cs s = (if isOpen s \<and> cs \<noteq> None then Some (isVerticalLayout s) else None)"

definition User_rerender ::
  "caseStudy option \<Rightarrow> bool option \<Rightarrow> user_state \<Rightarrow> user_state \<Rightarrow> bool option" where
  "User_rerender cs listener s s' =
     (if isOpen s' = isOpen s \<and> currentPanel s' = currentPanel s
      then listener else User_keydownListener cs s')"

definition User_window_keydown ::
  "caseStudy option \<Rightarrow> bool option \<Rightarrow> string \<Rightarrow> user_state \<Rightarrow> user_state" where
  "User_window_keydown cs listener key s =
     (case listener of None \<Rightarrow> s | Some vertical \<Rightarrow> User_handleKeyDown cs vertical key s)"

text \<open>
  The key of an image, \<^verbatim>\<open>`${index}-${mockupIndex}`\<close> (line 889): both indices are array
  positions, so each prints as its decimal digits.
\<close>

fun digitChar :: "nat \<Rightarrow> char" where
  "digitChar d = ''0123456789'' ! d"

fun toString :: "nat \<Rightarrow> string" where
  "toString n = (if n < 10 then [digitChar n] else toString (n div 10) @ [digitChar (n mod 10)])"

definition imageKey :: "nat \<Rightarrow> nat \<Rightarrow> string" where
  "imageKey index mockupIndex = toString index @ ''-'' @ toString mockupIndex"

declare toString.simps [simp del]

text \<open>The \<^verbatim>\<open>onClick\<close> of a mockup image (lines 940-942) and the \<^verbatim>\<open>isActive\<close> of line 890.\<close>

definition User_isActive :: "user_state \<Rightarrow> nat \<Rightarrow> nat \<Rightarrow> bool" where
  "User_isActive s index mockupIndex = (activeImageIndex s = Some (imageKey index mockupIndex))"

definition User_image_onClick :: "nat \<Rightarrow> nat \<Rightarrow> user_state \<Rightarrow> user_state" where
  "User_image_onClick index mockupIndex s =
     (let isActive = (activeImageIndex s = Some (imageKey index mockupIndex))
      in s\<lparr>activeImageIndex := (if isActive then None else Some (imageKey index mockupIndex))\<rparr>)"

section \<open>The frames of one panel\<close>

text \<open>
  What the inner \<^verbatim>\<open>forEach\<close> appends for one panel, in mockup order; \<open>frames\<close> is shown below
  to be the intro followed by these lists, panel after panel.
\<close>

definition panelFrames :: "panel \<Rightarrow> nat \<Rightarrow> frame list" where
  "panelFrames p pIndex = map (\<lambda>(mi, m). contentFrame p pIndex m mi) (enumerate 0 (mockups p))"

section \<open>The scroll index as the specification words it\<close>

text \<open>
  Following the specification's sentence on \<^verbatim>\<open>onScroll\<close>, not the code: the rounded quotient
  clamped into \<open>[0, frameCount - 1]\<close>. It is only compared with what \<open>handleScroll\<close> stores.
\<close>

definition spec_onScroll_index :: "nat \<Rightarrow> rat \<Rightarrow> rat \<Rightarrow> int" where
  "spec_onScroll_index frameCount scrollOffset frameExtent =
     max 0 (min (int frameCount - 1) (round (scrollOffset / frameExtent)))"

section \<open>Example inputs\<close>

text \<open>A case study with two panels, of one and of three mockups.\<close>

definition twoPanels :: caseStudy where
  "twoPanels =
     \<lparr> title = ''T'', description = ''D'',
       panels =
         [ \<lparr> label = ''A'', title = ''Panel A'', description = ''first'',
             mockups = [\<lparr>src = ''a1.png'', alt = ''a1''\<rparr>] \<rparr>,
           \<lparr> label = ''B'', title = ''Panel B'', description = ''second'',
             mockups = [\<lparr>src = ''b1.png'', alt = ''b1''\<rparr>, \<lparr>src = ''b2.png'', alt = ''b2''\<rparr>,
                        \<lparr>src = ''b3.png'', alt = ''b3''\<rparr>] \<rparr> ] \<rparr>"

text \<open>An open modal, laid out horizontally, its container scrolled to 5000 px at a width of
  1000 px; frame 2 (Admin) and image \<^verbatim>\<open>1-0\<close> (User) are zoomed.\<close>

definition exampleContainer :: container where
  "exampleContainer = \<lparr> scrollTop = 0, scrollLeft = 5000, offsetHeight = 800, offsetWidth = 1000 \<rparr>"

definition adminExample :: admin_state where
  "adminExample =
     \<lparr> isOpen = True, isVerticalLayout = False, showKeyboardHints = True,
       scrollContainerRef = Some exampleContainer, scrollToCalls = [],
       currentFrame = Num 4, zoomedFrame = Some 2 \<rparr>"

definition userExample :: user_state where
  "userExample =
     \<lparr> isOpen = True, isVerticalLayout = False, showKeyboardHints = True,
       scrollContainerRef = Some exampleContainer, scrollToCalls = [],
       currentPanel = Num 2, activeImageIndex = Some ''1-0'' \<rparr>"

section \<open>Frame list: shape\<close>

lemma forEach_push_map:
  "forEach (\<lambda>x i. push (g x i)) xs k acc = acc @ map (\<lambda>(i, x). g x i) (enumerate k xs)"
  by (induction xs arbitrary: k acc) (simp_all add: push_def)

lemma forEach_append_concat:
  "forEach (\<lambda>x i acc. acc @ h x i) xs k acc = acc @ concat (map (\<lambda>(i, x). h x i) (enumerate k xs))"
  by (induction xs arbitrary: k acc) simp_all

lemma frames_Some:
  "frames (Some c) =
     Intro (caseStudy.title c) (caseStudy.description c)
       # concat (map (\<lambda>(pi, p). panelFrames p pi) (enumerate 0 (panels c)))"
proof -
  have inner: "(\<lambda>panel pIndex.
                  forEach (\<lambda>mockupObj mockupIndex.
                             push (contentFrame panel pIndex mockupObj mockupIndex))
                    (mockups panel) 0)
               = (\<lambda>panel pIndex acc. acc @ panelFrames panel pIndex)"
    by (intro ext) (simp add: forEach_push_map [where g = "contentFrame p i" for p i] panelFrames_def)
  show ?thesis
    unfolding frames_def option.case inner
    by (simp add: forEach_append_concat [where h = panelFrames] push_def)
qed

lemma length_panelFrames: "length (panelFrames p pIndex) = length (mockups p)"
  by (simp add: panelFrames_def)

lemma length_concat_panelFrames:
  "length (concat (map (\<lambda>(pi, p). panelFrames p pi) (enumerate k ps)))
     = (\<Sum>p\<leftarrow>ps. length (mockups p))"
  by (induction ps arbitrary: k) (simp_all add: length_panelFrames)

text \<open>
  C1. For a case study with any panels, the frame list of AdminCaseStudy has one frame
  more than there are mockups over all panels, its first element (index 0) is the intro
  frame with the case study's title and description, and with no panels the list is
  exactly the intro frame.
\<close>

theorem frames_count_intro:
  "length (frames (Some c)) = 1 + (\<Sum>p\<leftarrow>panels c. length (mockups p))
   \<and> frames (Some c) ! 0 = Intro (caseStudy.title c) (caseStudy.description c)
   \<and> frames (Some (c\<lparr>panels := []\<rparr>)) = [Intro (caseStudy.title c) (caseStudy.description c)]"
  by (simp add: frames_Some length_concat_panelFrames)

section \<open>Frame list: content frames\<close>

lemma nth_panelFrames:
  "m < length (mockups p) \<Longrightarrow> panelFrames p pIndex ! m = contentFrame p pIndex (mockups p ! m) m"
  by (simp add: panelFrames_def nth_enumerate_eq)

lemma nth_concat_panelFrames:
  "p < length ps \<Longrightarrow> m < length (mockups (ps ! p)) \<Longrightarrow>
   concat (map (\<lambda>(pi, q). panelFrames q pi) (enumerate k ps))
       ! ((\<Sum>q\<leftarrow>take p ps. length (mockups q)) + m)
     = contentFrame (ps ! p) (k + p) (mockups (ps ! p) ! m) m"
proof (induction ps arbitrary: p k)
  case Nil
  then show ?case by simp
next
  case (Cons a ps)
  show ?case
  proof (cases p)
    case 0
    with Cons.prems show ?thesis
      by (simp add: nth_append length_panelFrames nth_panelFrames)
  next
    case (Suc p')
    with Cons.prems have "p' < length ps" "m < length (mockups (ps ! p'))" by simp_all
    from Cons.IH [OF this, of "Suc k"] Suc show ?thesis
      by (simp add: nth_append length_panelFrames add.assoc)
  qed
qed

lemma set_concat_panelFrames:
  "f \<in> set (concat (map (\<lambda>(pi, q). panelFrames q pi) (enumerate k ps))) \<Longrightarrow>
   \<exists>p<length ps. \<exists>m<length (mockups (ps ! p)). f = contentFrame (ps ! p) (k + p) (mockups (ps ! p) ! m) m"
proof (induction ps arbitrary: k)
  case Nil
  then show ?case by simp
next
  case (Cons a ps)
  from Cons.prems consider
      (here) "f \<in> set (panelFrames a k)"
    | (later) "f \<in> set (concat (map (\<lambda>(pi, q). panelFrames q pi) (enumerate (Suc k) ps)))"
    by auto
  then show ?case
  proof cases
    case here
    then obtain m where "m < length (mockups a)" "f = contentFrame a k (mockups a ! m) m"
      by (auto simp: in_set_conv_nth length_panelFrames nth_panelFrames)
    then show ?thesis by (intro exI [of _ 0]) auto
  next
    case later
    from Cons.IH [OF this] obtain p m where
      "p < length ps" "m < length (mockups (ps ! p))"
      "f = contentFrame (ps ! p) (Suc k + p) (mockups (ps ! p) ! m) m" by blast
    then show ?thesis by (intro exI [of _ "Suc p"]) auto
  qed
qed


text \<open>
  C8. Frames are ordered by panel, then by mockup: the frame of mockup \<open>m\<close> (0-based) of
  panel \<open>p\<close> sits at index 1 + (mockups of the panels before \<open>p\<close>) + \<open>m\<close>, and carries the
  panel's label, title and description, the mockup, \<open>imageNumber = m + 1\<close>,
  \<open>totalImages\<close> = the panel's mockup count, \<open>panelIndex = p\<close>, \<open>isFirstInPanel\<close> iff
  \<open>m = 0\<close> and \<open>isLastInPanel\<close> iff \<open>m\<close> is the panel's last mockup. Every frame after the
  intro is such a content frame. With two panels of 1 and 3 mockups there are 5 frames,
  frame 1 is first and last of panel 0, and frame 4 is not first, is last, of panel 1,
  image 3 of 3.
\<close>

theorem content_frame_fields:
  "(\<forall>p m. p < length (panels c) \<longrightarrow> m < length (mockups (panels c ! p)) \<longrightarrow>
      frames (Some c) ! (1 + (\<Sum>q\<leftarrow>take p (panels c). length (mockups q)) + m)
        = Content
            \<lparr> panelLabel = label (panels c ! p),
              panelTitle = panel.title (panels c ! p),
              description = panel.description (panels c ! p),
              mockup = mockups (panels c ! p) ! m,
              imageNumber = m + 1,
              totalImages = length (mockups (panels c ! p)),
              panelIndex = p,
              isFirstInPanel = (m = 0),
              isLastInPanel = (m + 1 = length (mockups (panels c ! p))) \<rparr>)
   \<and> (\<forall>f \<in> set (tl (frames (Some c))).
        \<exists>cf p m. f = Content cf \<and> p < length (panels c) \<and> m < length (mockups (panels c ! p))
          \<and> mockup cf = mockups (panels c ! p) ! m
          \<and> imageNumber cf = m + 1
          \<and> totalImages cf = length (mockups (panels c ! p))
          \<and> panelIndex cf = p
          \<and> isFirstInPanel cf = (m = 0)
          \<and> isLastInPanel cf = (m + 1 = length (mockups (panels c ! p))))
   \<and> (\<forall>pA pB. panels c = [pA, pB] \<and> length (mockups pA) = 1 \<and> length (mockups pB) = 3 \<longrightarrow>
        length (frames (Some c)) = 5
        \<and> (\<exists>cf. frames (Some c) ! 1 = Content cf
              \<and> isFirstInPanel cf \<and> isLastInPanel cf \<and> panelIndex cf = 0)
        \<and> (\<exists>cf. frames (Some c) ! 4 = Content cf
              \<and> \<not> isFirstInPanel cf \<and> isLastInPanel cf \<and> panelIndex cf = 1
              \<and> imageNumber cf = 3 \<and> totalImages cf = 3))"
proof (intro conjI allI impI ballI)
  fix p m
  assume pm: "p < length (panels c)" "m < length (mockups (panels c ! p))"
  have "int m = int (length (mockups (panels c ! p))) - 1
          \<longleftrightarrow> m + 1 = length (mockups (panels c ! p))"
    by linarith
  with nth_concat_panelFrames [OF pm, of 0]
  show "frames (Some c) ! (1 + (\<Sum>q\<leftarrow>take p (panels c). length (mockups q)) + m)
        = Content
            \<lparr> panelLabel = label (panels c ! p),
              panelTitle = panel.title (panels c ! p),
              description = panel.description (panels c ! p),
              mockup = mockups (panels c ! p) ! m,
              imageNumber = m + 1,
              totalImages = length (mockups (panels c ! p)),
              panelIndex = p,
              isFirstInPanel = (m = 0),
              isLastInPanel = (m + 1 = length (mockups (panels c ! p))) \<rparr>"
    by (simp add: frames_Some contentFrame_def)
next
  fix f
  assume "f \<in> set (tl (frames (Some c)))"
  then have "f \<in> set (concat (map (\<lambda>(pi, q). panelFrames q pi) (enumerate 0 (panels c))))"
    by (simp add: frames_Some)
  from set_concat_panelFrames [OF this] obtain p m where
    pm: "p < length (panels c)" "m < length (mockups (panels c ! p))"
    and f: "f = contentFrame (panels c ! p) p (mockups (panels c ! p) ! m) m"
    by auto
  have "int m = int (length (mockups (panels c ! p))) - 1
          \<longleftrightarrow> m + 1 = length (mockups (panels c ! p))"
    by linarith
  with pm f
  have "\<exists>cf. f = Content cf \<and> p < length (panels c) \<and> m < length (mockups (panels c ! p))
          \<and> mockup cf = mockups (panels c ! p) ! m
          \<and> imageNumber cf = m + 1
          \<and> totalImages cf = length (mockups (panels c ! p))
          \<and> panelIndex cf = p
          \<and> isFirstInPanel cf = (m = 0)
          \<and> isLastInPanel cf = (m + 1 = length (mockups (panels c ! p)))"
    by (simp add: contentFrame_def)
  then show "\<exists>cf p m. f = Content cf \<and> p < length (panels c) \<and> m < length (mockups (panels c ! p))
          \<and> mockup cf = mockups (panels c ! p) ! m
          \<and> imageNumber cf = m + 1
          \<and> totalImages cf = length (mockups (panels c ! p))
          \<and> panelIndex cf = p
          \<and> isFirstInPanel cf = (m = 0)
          \<and> isLastInPanel cf = (m + 1 = length (mockups (panels c ! p)))"
    by blast
next
  fix pA pB
  assume h: "panels c = [pA, pB] \<and> length (mockups pA) = 1 \<and> length (mockups pB) = 3"
  then obtain a where a: "mockups pA = [a]"
    by (cases "mockups pA") auto
  from h obtain b1 b2 b3 where b: "mockups pB = [b1, b2, b3]"
    by (auto simp: length_Suc_conv eval_nat_numeral)
  have fr: "frames (Some c) =
      [Intro (caseStudy.title c) (caseStudy.description c),
       contentFrame pA 0 a 0, contentFrame pB 1 b1 0, contentFrame pB 1 b2 1,
       contentFrame pB 1 b3 2]"
    using h by (simp add: frames_Some panelFrames_def a b eval_nat_numeral)
  show "length (frames (Some c)) = 5" by (simp add: fr)
  show "\<exists>cf. frames (Some c) ! 1 = Content cf
              \<and> isFirstInPanel cf \<and> isLastInPanel cf \<and> panelIndex cf = 0"
    by (simp add: fr contentFrame_def a)
  show "\<exists>cf. frames (Some c) ! 4 = Content cf
              \<and> \<not> isFirstInPanel cf \<and> isLastInPanel cf \<and> panelIndex cf = 1
              \<and> imageNumber cf = 3 \<and> totalImages cf = 3"
    by (simp add: fr contentFrame_def b)
qed

theorem content_frame_fields_witness:
  "frames (Some twoPanels) ! 4
     = Content \<lparr> panelLabel = ''B'', panelTitle = ''Panel B'', description = ''second'',
                 mockup = \<lparr>src = ''b3.png'', alt = ''b3''\<rparr>, imageNumber = 3, totalImages = 3,
                 panelIndex = 1, isFirstInPanel = False, isLastInPanel = True \<rparr>
   \<and> length (frames (Some twoPanels)) = 5
   \<and> (\<exists>cf. frames (Some twoPanels) ! 1 = Content cf
              \<and> isFirstInPanel cf \<and> isLastInPanel cf \<and> panelIndex cf = 0)
   \<and> (\<exists>cf p m. frames (Some twoPanels) ! 3 = Content cf \<and> panelIndex cf = p \<and> imageNumber cf = m + 1)"
proof -
  have p: "(1::nat) < length (panels twoPanels)"
    and m: "(2::nat) < length (mockups (panels twoPanels ! 1))"
    by (simp_all add: twoPanels_def)
  have shape: "panels twoPanels = [panels twoPanels ! 0, panels twoPanels ! 1]
      \<and> length (mockups (panels twoPanels ! 0)) = 1
      \<and> length (mockups (panels twoPanels ! 1)) = 3"
    by (simp add: twoPanels_def)
  have mem: "frames (Some twoPanels) ! 3 \<in> set (tl (frames (Some twoPanels)))"
    by (simp add: frames_Some panelFrames_def twoPanels_def)
  note inst = content_frame_fields [of twoPanels]
  from inst [THEN conjunct1, rule_format, OF p m]
  have a: "frames (Some twoPanels) ! 4
     = Content \<lparr> panelLabel = ''B'', panelTitle = ''Panel B'', description = ''second'',
                 mockup = \<lparr>src = ''b3.png'', alt = ''b3''\<rparr>, imageNumber = 3, totalImages = 3,
                 panelIndex = 1, isFirstInPanel = False, isLastInPanel = True \<rparr>"
    by (simp add: twoPanels_def eval_nat_numeral)
  from inst [THEN conjunct2, THEN conjunct2, rule_format, OF shape]
  have b: "length (frames (Some twoPanels)) = 5"
    and c: "\<exists>cf. frames (Some twoPanels) ! 1 = Content cf
              \<and> isFirstInPanel cf \<and> isLastInPanel cf \<and> panelIndex cf = 0"
    by simp_all
  from inst [THEN conjunct2, THEN conjunct1, rule_format, OF mem]
  have d: "\<exists>cf p m. frames (Some twoPanels) ! 3 = Content cf \<and> panelIndex cf = p \<and> imageNumber cf = m + 1"
    by blast
  from a b c d show ?thesis by simp
qed


lemma length_frames_twoPanels: "length (frames (Some twoPanels)) = 5"
  by (simp add: frames_Some panelFrames_def twoPanels_def)

section \<open>Navigation (navigateToFrame, navigateToPanel)\<close>

text \<open>
  C3. An index below 0 or at least the frame count (the frames' length in AdminCaseStudy,
  the number of panels plus one in UserCaseStudy) makes the navigation callback return the
  state it was given: nothing is written and no scroll is requested. So ArrowRight on the
  last frame changes nothing, whether the handler is called directly or through the
  window's keydown listener.
\<close>

theorem navigate_out_of_range_noop:
  "(r < 0 \<or> of_nat n \<le> r \<longrightarrow> Admin_navigateToFrame n v (Num r) s = s)
   \<and> Admin_navigateToFrame n v NegInfinity s = s
   \<and> Admin_navigateToFrame n v PosInfinity s = s
   \<and> (r < 0 \<or> of_nat (length (panels c0) + 1) \<le> r \<longrightarrow> User_navigateToPanel (Some c0) v (Num r) u = u)
   \<and> User_navigateToPanel cs v NegInfinity u = u
   \<and> User_navigateToPanel cs v PosInfinity u = u
   \<and> (currentFrame s = Num (of_nat (length (frames cs)) - 1) \<longrightarrow>
        Admin_handleKeyDown cs v ''ArrowRight'' s = s \<and> Admin_keydown cs v ''ArrowRight'' s = s)
   \<and> (currentPanel u = Num (of_nat (length (panels c0) + 1) - 1) \<longrightarrow>
        User_handleKeyDown (Some c0) v ''ArrowRight'' u = u
        \<and> User_keydown (Some c0) v ''ArrowRight'' u = u)"
  by (auto simp: Admin_navigateToFrame_def User_navigateToPanel_def Admin_handleKeyDown_def
        Admin_keydown_def User_handleKeyDown_def User_keydown_def split: option.splits)

theorem navigate_out_of_range_noop_witness:
  "Admin_navigateToFrame 5 False (Num 5) adminExample = adminExample
   \<and> Admin_navigateToFrame 5 False (Num (- 1)) adminExample = adminExample
   \<and> User_navigateToPanel (Some twoPanels) False (Num 3) userExample = userExample
   \<and> Admin_keydown (Some twoPanels) False ''ArrowRight'' adminExample = adminExample
   \<and> User_keydown (Some twoPanels) False ''ArrowRight'' userExample = userExample"
proof -
  note a = navigate_out_of_range_noop [of 5 5 False adminExample twoPanels userExample "Some twoPanels"]
  note b = navigate_out_of_range_noop [of "- 1" 5 False adminExample twoPanels userExample "Some twoPanels"]
  note c = navigate_out_of_range_noop [of 3 5 False adminExample twoPanels userExample "Some twoPanels"]
  have cur: "currentFrame adminExample = Num (of_nat (length (frames (Some twoPanels))) - 1)"
    by (simp add: length_frames_twoPanels adminExample_def)
  have curU: "currentPanel userExample = Num (of_nat (length (panels twoPanels) + 1) - 1)"
    by (simp add: userExample_def twoPanels_def)
  have lenU: "(of_nat (length (panels twoPanels) + 1) :: rat) \<le> 3"
    by (simp add: twoPanels_def)
  from a b c cur curU lenU show ?thesis by simp
qed

text \<open>
  The callback of the current render, the one the navigation dots call: with the scroll
  container mounted, a valid index \<open>i\<close> is stored as the current index and one \<^verbatim>\<open>scrollTo\<close> is
  issued, to \<open>i\<close> times the container's height (vertical layout, \<^verbatim>\<open>top\<close>) or width
  (horizontal layout, \<^verbatim>\<open>left\<close>), the size being read from the container when the call is
  made.
\<close>

lemma navigateTo_current_render:
  "(scrollContainerRef s = Some c \<and> 0 \<le> i \<and> i < int (length (frames cs)) \<longrightarrow>
      Admin_navigateToFrame (length (frames cs)) (isVerticalLayout s) (Num (of_int i)) s
        = s\<lparr>scrollToCalls := scrollToCalls s @
               [if isVerticalLayout s then Top (Num (of_int (i * offsetHeight c)))
                else Left (Num (of_int (i * offsetWidth c)))],
             currentFrame := Num (of_int i)\<rparr>)
   \<and> (scrollContainerRef u = Some c \<and> 0 \<le> i \<and> i < int (length (panels c0) + 1) \<longrightarrow>
      User_navigateToPanel (Some c0) (isVerticalLayout u) (Num (of_int i)) u
        = u\<lparr>scrollToCalls := scrollToCalls u @
               [if isVerticalLayout u then Top (Num (of_int (i * offsetHeight c)))
                else Left (Num (of_int (i * offsetWidth c)))],
             currentPanel := Num (of_int i)\<rparr>)"
  by (auto simp: Admin_navigateToFrame_def User_navigateToPanel_def Let_def mult.commute)

lemma navigateTo_current_render_example:
  "Admin_navigateToFrame 5 False (Num 3) adminExample
     = adminExample\<lparr>scrollToCalls := [Left (Num 3000)], currentFrame := Num 3\<rparr>
   \<and> User_navigateToPanel (Some twoPanels) True (Num 1) (userExample\<lparr>isVerticalLayout := True\<rparr>)
     = userExample\<lparr>isVerticalLayout := True, scrollToCalls := [Top (Num 800)], currentPanel := Num 1\<rparr>
   \<and> scrollToCalls (Admin_navigateToFrame 5 False (Num 3)
        (adminExample\<lparr>scrollContainerRef := Some (exampleContainer\<lparr>offsetWidth := 1200\<rparr>)\<rparr>))
     = [Left (Num 3600)]"
proof -
  have a: "scrollContainerRef adminExample = Some exampleContainer \<and> (0::int) \<le> 3
           \<and> 3 < int (length (frames (Some twoPanels)))"
    by (simp add: adminExample_def length_frames_twoPanels)
  have b: "scrollContainerRef (userExample\<lparr>isVerticalLayout := True\<rparr>) = Some exampleContainer
           \<and> (0::int) \<le> 1 \<and> 1 < int (length (panels twoPanels) + 1)"
    by (simp add: userExample_def twoPanels_def)
  have r: "scrollContainerRef
             (adminExample\<lparr>scrollContainerRef := Some (exampleContainer\<lparr>offsetWidth := 1200\<rparr>)\<rparr>)
           = Some (exampleContainer\<lparr>offsetWidth := 1200\<rparr>) \<and> (0::int) \<le> 3
           \<and> 3 < int (length (frames (Some twoPanels)))"
    by (simp add: length_frames_twoPanels)
  from navigateTo_current_render [THEN conjunct1, rule_format, OF a]
       navigateTo_current_render [THEN conjunct2, rule_format, OF b]
       navigateTo_current_render [THEN conjunct1, rule_format, OF r]
  show ?thesis
    by (simp add: length_frames_twoPanels adminExample_def userExample_def exampleContainer_def)
qed

text \<open>
  C4. Navigation to a valid index has to store the index and scroll to the index times the
  container's height in vertical layout (its width in horizontal layout). Through the
  keyboard the code misses this after a resize: the modal is open on five frames in
  horizontal layout, frame 4 current, the container 1000 px wide and 800 px high; the
  window shrinks to 800 px, so \<^verbatim>\<open>checkLayout\<close> switches to vertical layout while the keyboard
  listener, none of whose dependencies changed, stays; ArrowLeft then stores the valid
  index 3 but asks for \<^verbatim>\<open>left: 3000\<close> (3 times the width), where the callback of that render
  asks for \<^verbatim>\<open>top: 2400\<close> (3 times the height). UserCaseStudy has the same listener.
\<close>

theorem stale_listener_scrolls_other_axis:
  "Admin_keydownListener (Some twoPanels) adminExample = Some False
   \<and> isVerticalLayout (Admin_checkLayout 800 adminExample)
   \<and> scrollContainerRef (Admin_checkLayout 800 adminExample) = Some exampleContainer
   \<and> Admin_rerender (Some twoPanels) (Admin_keydownListener (Some twoPanels) adminExample)
         adminExample (Admin_checkLayout 800 adminExample) = Some False
   \<and> currentFrame
         (Admin_window_keydown (Some twoPanels)
            (Admin_rerender (Some twoPanels) (Admin_keydownListener (Some twoPanels) adminExample)
               adminExample (Admin_checkLayout 800 adminExample))
            ''ArrowLeft'' (Admin_checkLayout 800 adminExample)) = Num 3
   \<and> scrollToCalls
         (Admin_window_keydown (Some twoPanels)
            (Admin_rerender (Some twoPanels) (Admin_keydownListener (Some twoPanels) adminExample)
               adminExample (Admin_checkLayout 800 adminExample))
            ''ArrowLeft'' (Admin_checkLayout 800 adminExample)) = [Left (Num 3000)]
   \<and> scrollToCalls
         (Admin_navigateToFrame (length (frames (Some twoPanels)))
            (isVerticalLayout (Admin_checkLayout 800 adminExample)) (Num 3)
            (Admin_checkLayout 800 adminExample)) = [Top (Num 2400)]
   \<and> isVerticalLayout (User_checkLayout 600 userExample)
   \<and> scrollToCalls
         (User_window_keydown (Some twoPanels)
            (User_rerender (Some twoPanels) (User_keydownListener (Some twoPanels) userExample)
               userExample (User_checkLayout 600 userExample))
            ''ArrowLeft'' (User_checkLayout 600 userExample)) = [Left (Num 1000)]
   \<and> scrollToCalls
         (User_navigateToPanel (Some twoPanels)
            (isVerticalLayout (User_checkLayout 600 userExample)) (Num 1)
            (User_checkLayout 600 userExample)) = [Top (Num 800)]"
proof -
  have panels2: "length (panels twoPanels) = 2"
    by (simp add: twoPanels_def)
  show ?thesis
    by (simp add: Admin_keydownListener_def Admin_rerender_def Admin_window_keydown_def
          Admin_handleKeyDown_def Admin_navigateToFrame_def Admin_checkLayout_def
          User_keydownListener_def User_rerender_def User_window_keydown_def
          User_handleKeyDown_def User_navigateToPanel_def User_checkLayout_def
          js_sub_def length_frames_twoPanels panels2 adminExample_def userExample_def
          exampleContainer_def)
qed

text \<open>
  C10. While the scroll container is not mounted, the navigation callback leaves the state
  unchanged for every index, a valid one included.
\<close>

theorem navigate_unmounted_noop:
  "(scrollContainerRef s = None \<longrightarrow> Admin_navigateToFrame n v index s = s)
   \<and> (scrollContainerRef u = None \<longrightarrow> User_navigateToPanel cs v index u = u)"
  by (simp add: Admin_navigateToFrame_def User_navigateToPanel_def split: option.splits)

theorem navigate_unmounted_noop_witness:
  "Admin_navigateToFrame 5 False (Num 3) (adminExample\<lparr>scrollContainerRef := None\<rparr>)
     = adminExample\<lparr>scrollContainerRef := None\<rparr>
   \<and> currentFrame (Admin_navigateToFrame 5 False (Num 3) (adminExample\<lparr>scrollContainerRef := None\<rparr>))
     = Num 4
   \<and> User_navigateToPanel (Some twoPanels) False (Num 1) (userExample\<lparr>scrollContainerRef := None\<rparr>)
     = userExample\<lparr>scrollContainerRef := None\<rparr>"
  using navigate_unmounted_noop [of "adminExample\<lparr>scrollContainerRef := None\<rparr>" 5 False "Num 3"
          "userExample\<lparr>scrollContainerRef := None\<rparr>" "Some twoPanels"]
    navigate_unmounted_noop [of "adminExample\<lparr>scrollContainerRef := None\<rparr>" 5 False "Num 1"
          "userExample\<lparr>scrollContainerRef := None\<rparr>" "Some twoPanels"]
  by (simp add: adminExample_def)

section \<open>Layout recomputation (checkLayout)\<close>

text \<open>
  C9. \<^verbatim>\<open>checkLayout\<close> sets the layout flag from the window width (below 1025 px in
  AdminCaseStudy, below 641 px in UserCaseStudy) and leaves the current index, the zoom,
  \<^verbatim>\<open>isOpen\<close>, the container and the issued scrolls as they were.
\<close>

theorem checkLayout_keeps_index:
  "currentFrame (Admin_checkLayout w s) = currentFrame s
   \<and> zoomedFrame (Admin_checkLayout w s) = zoomedFrame s
   \<and> isOpen (Admin_checkLayout w s) = isOpen s
   \<and> scrollContainerRef (Admin_checkLayout w s) = scrollContainerRef s
   \<and> scrollToCalls (Admin_checkLayout w s) = scrollToCalls s
   \<and> isVerticalLayout (Admin_checkLayout w s) = (w < 1025)
   \<and> showKeyboardHints (Admin_checkLayout w s) = (1024 \<le> w)
   \<and> currentPanel (User_checkLayout w u) = currentPanel u
   \<and> activeImageIndex (User_checkLayout w u) = activeImageIndex u
   \<and> isOpen (User_checkLayout w u) = isOpen u
   \<and> scrollContainerRef (User_checkLayout w u) = scrollContainerRef u
   \<and> scrollToCalls (User_checkLayout w u) = scrollToCalls u
   \<and> isVerticalLayout (User_checkLayout w u) = (w < 641)
   \<and> showKeyboardHints (User_checkLayout w u) = (1024 \<le> w)"
  by (simp add: Admin_checkLayout_def User_checkLayout_def)

section \<open>Scroll handler (handleScroll)\<close>

lemma round_index_in_range:
  fixes pos :: rat and ext :: int
  assumes "0 < ext" "0 \<le> pos" "pos \<le> of_int ((int n - 1) * ext)"
  shows "0 \<le> round (pos / of_int ext) \<and> round (pos / of_int ext) \<le> int n - 1"
proof -
  have e: "(0::rat) < of_int ext" using assms(1) by simp
  have "0 \<le> pos / of_int ext" using assms(2) e by simp
  then have lo: "0 \<le> round (pos / of_int ext)"
    unfolding round_def by linarith
  have "pos / of_int ext \<le> of_int (int n - 1)"
    using assms(3) e by (simp add: pos_divide_le_eq)
  then have "pos / of_int ext + 1 / 2 < of_int (int n - 1) + 1" by linarith
  then have "\<lfloor>pos / of_int ext + 1 / 2\<rfloor> < (int n - 1) + 1"
    by (metis floor_less_iff of_int_1 of_int_add)
  then show ?thesis using lo unfolding round_def by linarith
qed

text \<open>
  C2 (as amended). With the container mounted and a positive extent, \<^verbatim>\<open>handleScroll\<close>
  stores \<open>round (scrollOffset / extent)\<close> as the current index, unclamped; the stored index
  lies in \<open>[0, n - 1]\<close> whenever the offset lies in \<open>[0, (n - 1) * extent]\<close>. With the
  container not mounted the state is unchanged.
\<close>

theorem handleScroll_index:
  "(scrollContainerRef s = Some c
      \<and> pos = (if isVerticalLayout s then scrollTop c else scrollLeft c)
      \<and> ext = (if isVerticalLayout s then offsetHeight c else offsetWidth c)
      \<and> 0 < ext \<longrightarrow>
        Admin_handleScroll s = s\<lparr>currentFrame := Num (of_int (round (pos / of_int ext)))\<rparr>
        \<and> (0 \<le> pos \<and> pos \<le> of_int ((int n - 1) * ext) \<longrightarrow>
             0 \<le> round (pos / of_int ext) \<and> round (pos / of_int ext) \<le> int n - 1))
   \<and> (scrollContainerRef s = None \<longrightarrow> Admin_handleScroll s = s)
   \<and> (scrollContainerRef u = Some c'
      \<and> pos' = (if isVerticalLayout u then scrollTop c' else scrollLeft c')
      \<and> ext' = (if isVerticalLayout u then offsetHeight c' else offsetWidth c')
      \<and> 0 < ext' \<longrightarrow>
        User_handleScroll u = u\<lparr>currentPanel := Num (of_int (round (pos' / of_int ext')))\<rparr>
        \<and> (0 \<le> pos' \<and> pos' \<le> of_int ((int n - 1) * ext') \<longrightarrow>
             0 \<le> round (pos' / of_int ext') \<and> round (pos' / of_int ext') \<le> int n - 1))
   \<and> (scrollContainerRef u = None \<longrightarrow> User_handleScroll u = u)"
proof (intro conjI impI)
  assume h: "scrollContainerRef s = Some c
      \<and> pos = (if isVerticalLayout s then scrollTop c else scrollLeft c)
      \<and> ext = (if isVerticalLayout s then offsetHeight c else offsetWidth c)
      \<and> 0 < ext"
  then show "Admin_handleScroll s = s\<lparr>currentFrame := Num (of_int (round (pos / of_int ext)))\<rparr>"
    by (auto simp: Admin_handleScroll_def js_div_def round_def)
  assume "0 \<le> pos \<and> pos \<le> of_int ((int n - 1) * ext)"
  with h round_index_in_range [of ext pos n]
  show "0 \<le> round (pos / of_int ext)" "round (pos / of_int ext) \<le> int n - 1"
    by simp_all
next
  assume "scrollContainerRef s = None"
  then show "Admin_handleScroll s = s" by (simp add: Admin_handleScroll_def)
next
  assume h: "scrollContainerRef u = Some c'
      \<and> pos' = (if isVerticalLayout u then scrollTop c' else scrollLeft c')
      \<and> ext' = (if isVerticalLayout u then offsetHeight c' else offsetWidth c')
      \<and> 0 < ext'"
  then show "User_handleScroll u = u\<lparr>currentPanel := Num (of_int (round (pos' / of_int ext')))\<rparr>"
    by (auto simp: User_handleScroll_def js_div_def round_def)
  assume "0 \<le> pos' \<and> pos' \<le> of_int ((int n - 1) * ext')"
  with h round_index_in_range [of ext' pos' n]
  show "0 \<le> round (pos' / of_int ext')" "round (pos' / of_int ext') \<le> int n - 1"
    by simp_all
next
  assume "scrollContainerRef u = None"
  then show "User_handleScroll u = u" by (simp add: User_handleScroll_def)
qed

theorem handleScroll_index_witness:
  "Admin_handleScroll adminExample = adminExample\<lparr>currentFrame := Num 5\<rparr>
   \<and> User_handleScroll userExample = userExample\<lparr>currentPanel := Num 5\<rparr>
   \<and> Admin_handleScroll (adminExample\<lparr>scrollContainerRef := None\<rparr>)
       = adminExample\<lparr>scrollContainerRef := None\<rparr>
   \<and> User_handleScroll (userExample\<lparr>scrollContainerRef := None\<rparr>)
       = userExample\<lparr>scrollContainerRef := None\<rparr>
   \<and> 0 \<le> round (5000 / of_int 1000 :: rat) \<and> round (5000 / of_int 1000 :: rat) \<le> int 6 - 1"
proof -
  have rd: "round (5000 / of_int 1000 :: rat) = 5"
    unfolding round_def by simp linarith
  have ha: "scrollContainerRef adminExample = Some exampleContainer
      \<and> (5000::rat) = (if isVerticalLayout adminExample then scrollTop exampleContainer
                        else scrollLeft exampleContainer)
      \<and> (1000::int) = (if isVerticalLayout adminExample then offsetHeight exampleContainer
                        else offsetWidth exampleContainer)
      \<and> (0::int) < 1000"
    by (simp add: adminExample_def exampleContainer_def)
  have hu: "scrollContainerRef userExample = Some exampleContainer
      \<and> (5000::rat) = (if isVerticalLayout userExample then scrollTop exampleContainer
                        else scrollLeft exampleContainer)
      \<and> (1000::int) = (if isVerticalLayout userExample then offsetHeight exampleContainer
                        else offsetWidth exampleContainer)
      \<and> (0::int) < 1000"
    by (simp add: userExample_def exampleContainer_def)
  have rg: "(0::rat) \<le> 5000 \<and> (5000::rat) \<le> of_int ((int 6 - 1) * 1000)"
    by simp
  note mounted = handleScroll_index [of adminExample exampleContainer 5000 1000 6
                    userExample exampleContainer 5000 1000]
  note unmounted = handleScroll_index [of "adminExample\<lparr>scrollContainerRef := None\<rparr>" c pos ext n
                    "userExample\<lparr>scrollContainerRef := None\<rparr>" c' pos' ext']
  from mounted [THEN conjunct1, rule_format, OF ha]
  have a: "Admin_handleScroll adminExample = adminExample\<lparr>currentFrame := Num 5\<rparr>"
    and r: "0 \<le> round (5000 / of_int 1000 :: rat) \<and> round (5000 / of_int 1000 :: rat) \<le> int 6 - 1"
    using rg by (simp_all add: rd)
  from mounted [THEN conjunct2, THEN conjunct2, THEN conjunct1, rule_format, OF hu]
  have b: "User_handleScroll userExample = userExample\<lparr>currentPanel := Num 5\<rparr>"
    by (simp add: rd)
  from unmounted
  have c: "Admin_handleScroll (adminExample\<lparr>scrollContainerRef := None\<rparr>)
             = adminExample\<lparr>scrollContainerRef := None\<rparr>"
    and d: "User_handleScroll (userExample\<lparr>scrollContainerRef := None\<rparr>)
             = userExample\<lparr>scrollContainerRef := None\<rparr>"
    by simp_all
  from a b c d r show ?thesis by simp
qed

text \<open>
  At a scroll offset of 5000 px and a width of 1000 px, with five frames, the stored index
  is 5, where the clamped value would be 4; at a width of 0 the stored value is not a
  finite number.
\<close>

theorem handleScroll_unclamped_counterexample:
  "currentFrame (Admin_handleScroll adminExample) = Num 5
   \<and> length (frames (Some twoPanels)) = 5
   \<and> currentFrame (Admin_handleScroll adminExample)
       \<noteq> Num (of_int (spec_onScroll_index (length (frames (Some twoPanels)))
                         (scrollLeft exampleContainer) (of_int (offsetWidth exampleContainer))))
   \<and> currentFrame (Admin_handleScroll
        (adminExample\<lparr>scrollContainerRef := Some (exampleContainer\<lparr>offsetWidth := 0\<rparr>)\<rparr>)) = PosInfinity"
proof -
  have fl: "\<lfloor>11 / 2 :: rat\<rfloor> = 5" by linarith
  have a: "currentFrame (Admin_handleScroll adminExample) = Num 5"
    by (simp add: Admin_handleScroll_def adminExample_def exampleContainer_def js_div_def fl)
  have b: "spec_onScroll_index (length (frames (Some twoPanels)))
             (scrollLeft exampleContainer) (of_int (offsetWidth exampleContainer)) = 4"
    by (simp add: spec_onScroll_index_def length_frames_twoPanels round_def exampleContainer_def fl)
  have c: "currentFrame (Admin_handleScroll
        (adminExample\<lparr>scrollContainerRef := Some (exampleContainer\<lparr>offsetWidth := 0\<rparr>)\<rparr>)) = PosInfinity"
    by (simp add: Admin_handleScroll_def adminExample_def exampleContainer_def js_div_def)
  from a b c length_frames_twoPanels show ?thesis by simp
qed

section \<open>Opening and the Escape key\<close>

lemma Admin_reset_on_open:
  "\<not> isOpen s \<Longrightarrow>
     currentFrame (Admin_setIsOpen True s) = Num 0 \<and> zoomedFrame (Admin_setIsOpen True s) = None
     \<and> isOpen (Admin_setIsOpen True s)"
  by (simp add: Admin_setIsOpen_def Admin_resetEffect_def)

lemma User_reset_on_open:
  "\<not> isOpen s \<Longrightarrow>
     currentPanel (User_setIsOpen True s) = Num 0
     \<and> activeImageIndex (User_setIsOpen True s) = activeImageIndex s
     \<and> isOpen (User_setIsOpen True s)"
  by (simp add: User_setIsOpen_def User_resetEffect_def)

lemma Admin_Escape:
  "Admin_handleKeyDown cs v ''Escape'' s =
     (if zoomedFrame s \<noteq> None then s\<lparr>zoomedFrame := None\<rparr> else s\<lparr>isOpen := False\<rparr>)"
  by (simp add: Admin_handleKeyDown_def closeAdminCaseStudy_def)

lemma User_Escape: "User_handleKeyDown cs v ''Escape'' s = s\<lparr>isOpen := False\<rparr>"
  by (simp add: User_handleKeyDown_def closeUserCaseStudy_def)

text \<open>
  C5. Opening UserCaseStudy resets the current panel to 0 but leaves the zoomed image as
  the previous session left it: closed by Escape with image \<^verbatim>\<open>1-0\<close> zoomed and opened
  again, the modal still has \<^verbatim>\<open>1-0\<close> zoomed. (AdminCaseStudy resets both,
  \<open>Admin_reset_on_open\<close>.)
\<close>

theorem user_reopen_keeps_zoom:
  "activeImageIndex userExample = Some (imageKey 1 0)
   \<and> \<not> isOpen (User_keydown (Some twoPanels) False ''Escape'' userExample)
   \<and> isOpen (User_setIsOpen True (User_keydown (Some twoPanels) False ''Escape'' userExample))
   \<and> currentPanel (User_setIsOpen True (User_keydown (Some twoPanels) False ''Escape'' userExample))
       = Num 0
   \<and> activeImageIndex
         (User_setIsOpen True (User_keydown (Some twoPanels) False ''Escape'' userExample))
       = Some (imageKey 1 0)"
  by (simp add: User_setIsOpen_def User_resetEffect_def User_keydown_def User_handleKeyDown_def
        closeUserCaseStudy_def userExample_def imageKey_def toString.simps)

text \<open>
  C6. In UserCaseStudy the Escape key closes the modal also while an image is zoomed, and
  the zoom is kept. (AdminCaseStudy clears the zoom first, \<open>Admin_Escape\<close>.)
\<close>

theorem user_escape_closes_while_zoomed:
  "activeImageIndex userExample = Some (imageKey 1 0)
   \<and> isOpen userExample
   \<and> \<not> isOpen (User_keydown (Some twoPanels) False ''Escape'' userExample)
   \<and> activeImageIndex (User_keydown (Some twoPanels) False ''Escape'' userExample) = Some (imageKey 1 0)"
  by (simp add: User_keydown_def User_handleKeyDown_def closeUserCaseStudy_def userExample_def
        imageKey_def toString.simps)

section \<open>Zoom toggle\<close>

lemma digitChar_inj: "a < 10 \<Longrightarrow> b < 10 \<Longrightarrow> digitChar a = digitChar b \<Longrightarrow> a = b"
proof -
  assume a: "a < 10" and b: "b < 10" and eq: "digitChar a = digitChar b"
  have d: "distinct ''0123456789''" by simp
  have "length ''0123456789'' = 10" by simp
  with a b eq d show "a = b"
    by (simp add: nth_eq_iff_index_eq del: distinct.simps)
qed

lemma digitChar_not_dash: "d < 10 \<Longrightarrow> digitChar d \<noteq> CHR ''-''"
proof -
  assume "d < 10"
  then have "digitChar d \<in> set ''0123456789''"
    unfolding digitChar.simps by (intro nth_mem) simp
  then show ?thesis by auto
qed

lemma toString_not_Nil: "toString n \<noteq> []"
  by (subst toString.simps) simp

lemma dash_notin_toString: "CHR ''-'' \<notin> set (toString n)"
proof (induction n rule: toString.induct)
  case (1 n)
  show ?case
  proof (cases "n < 10")
    case True
    then show ?thesis using digitChar_not_dash [of n] by (subst toString.simps) auto
  next
    case False
    then have "n mod 10 < 10" by simp
    with 1 False digitChar_not_dash [of "n mod 10"] show ?thesis
      by (subst toString.simps) auto
  qed
qed

lemma toString_inj: "toString n = toString m \<Longrightarrow> n = m"
proof (induction n arbitrary: m rule: toString.induct)
  case (1 n)
  show ?case
  proof (cases "n < 10")
    case True
    show ?thesis
    proof (cases "m < 10")
      case m: True
      from "1.prems" True m have "digitChar n = digitChar m"
        by (simp add: toString.simps [of n] toString.simps [of m])
      with True m show ?thesis by (rule digitChar_inj)
    next
      case m: False
      from "1.prems" True m toString_not_Nil [of "m div 10"] show ?thesis
        by (simp add: toString.simps [of n] toString.simps [of m])
    qed
  next
    case False
    show ?thesis
    proof (cases "m < 10")
      case m: True
      from "1.prems" False m toString_not_Nil [of "n div 10"] show ?thesis
        by (simp add: toString.simps [of n] toString.simps [of m])
    next
      case m: False
      from "1.prems" False m
      have eq: "toString (n div 10) = toString (m div 10)"
        and dg: "digitChar (n mod 10) = digitChar (m mod 10)"
        by (simp_all add: toString.simps [of n] toString.simps [of m])
      from "1.IH" [OF False eq] have "n div 10 = m div 10" .
      moreover from dg have "n mod 10 = m mod 10"
        by (intro digitChar_inj) simp_all
      ultimately show ?thesis by (metis div_mult_mod_eq)
    qed
  qed
qed

lemma split_at_first:
  "c \<notin> set xs \<Longrightarrow> c \<notin> set xs' \<Longrightarrow> xs @ c # ys = xs' @ c # ys' \<Longrightarrow> xs = xs' \<and> ys = ys'"
proof (induction xs arbitrary: xs')
  case Nil
  then show ?case by (cases xs') auto
next
  case (Cons a xs)
  then show ?case by (cases xs') auto
qed

lemma imageKey_inj: "imageKey i m = imageKey i' m' \<Longrightarrow> i = i' \<and> m = m'"
proof -
  assume "imageKey i m = imageKey i' m'"
  then have "toString i @ CHR ''-'' # toString m = toString i' @ CHR ''-'' # toString m'"
    by (simp add: imageKey_def)
  from split_at_first [OF dash_notin_toString dash_notin_toString this]
  show ?thesis by (auto dest: toString_inj)
qed

text \<open>
  C7. Clicking image \<open>i\<close> zooms it when it is not the zoomed one and clears the zoom when
  it is. So two clicks in a row on \<open>i\<close> return to no zoom from every state not zoomed on \<open>i\<close>
  (from a state zoomed on \<open>i\<close> the first click clears and the second zooms \<open>i\<close> again). At most
  one image is shown zoomed, in both components.
\<close>

theorem toggle_zoom:
  "(zoomedFrame s \<noteq> Some i \<longrightarrow>
      zoomedFrame (Admin_image_onClick i s) = Some i
      \<and> zoomedFrame (Admin_image_onClick i (Admin_image_onClick i s)) = None)
   \<and> (zoomedFrame s = Some i \<longrightarrow>
      zoomedFrame (Admin_image_onClick i s) = None
      \<and> zoomedFrame (Admin_image_onClick i (Admin_image_onClick i s)) = Some i)
   \<and> (Admin_isZoomed s i \<and> Admin_isZoomed s j \<longrightarrow> i = j)
   \<and> (activeImageIndex u \<noteq> Some (imageKey p m) \<longrightarrow>
      activeImageIndex (User_image_onClick p m u) = Some (imageKey p m)
      \<and> activeImageIndex (User_image_onClick p m (User_image_onClick p m u)) = None)
   \<and> (activeImageIndex u = Some (imageKey p m) \<longrightarrow>
      activeImageIndex (User_image_onClick p m u) = None
      \<and> activeImageIndex (User_image_onClick p m (User_image_onClick p m u)) = Some (imageKey p m))
   \<and> (User_isActive u p m \<and> User_isActive u p' m' \<longrightarrow> p = p' \<and> m = m')"
  by (auto simp: Admin_image_onClick_def User_image_onClick_def Admin_isZoomed_def
        User_isActive_def dest: imageKey_inj)

theorem toggle_zoom_witness:
  "zoomedFrame (Admin_image_onClick 3 adminExample) = Some 3
   \<and> zoomedFrame (Admin_image_onClick 3 (Admin_image_onClick 3 adminExample)) = None
   \<and> zoomedFrame (Admin_image_onClick 2 adminExample) = None
   \<and> zoomedFrame (Admin_image_onClick 2 (Admin_image_onClick 2 adminExample)) = Some 2
   \<and> activeImageIndex (User_image_onClick 0 1 userExample) = Some ''0-1''
   \<and> activeImageIndex (User_image_onClick 0 1 (User_image_onClick 0 1 userExample)) = None
   \<and> activeImageIndex (User_image_onClick 1 0 userExample) = None
   \<and> activeImageIndex (User_image_onClick 1 0 (User_image_onClick 1 0 userExample)) = Some ''1-0''
   \<and> Admin_isZoomed adminExample 2 \<and> User_isActive userExample 1 0"
proof -
  have k: "imageKey 0 1 = ''0-1''" "imageKey 1 0 = ''1-0''"
    by (simp_all add: imageKey_def toString.simps)
  have z: "Admin_isZoomed adminExample 2" "User_isActive userExample 1 0"
    unfolding Admin_isZoomed_def User_isActive_def k
    by (simp_all add: adminExample_def userExample_def)
  have n: "zoomedFrame adminExample \<noteq> Some 3" "zoomedFrame adminExample = Some 2"
    "activeImageIndex userExample \<noteq> Some (imageKey 0 1)"
    "activeImageIndex userExample = Some (imageKey 1 0)"
    unfolding k by (simp_all add: adminExample_def userExample_def)
  from toggle_zoom [of adminExample 3 2 userExample 0 1 0 1]
       toggle_zoom [of adminExample 2 2 userExample 1 0 1 0] n z
  show ?thesis unfolding k by simp
qed

end
